theory Spec2Isabelle
  imports Complex_Main "HOL-Library.AList"
begin

section \<open>Python values\<close>

text \<open>
  The orchestrator passes plain Python values around: plan steps, worker results and
  message metadata are dictionaries with string keys, and the plan generated by the
  language model is whatever \<open>json.loads\<close> returns. A dictionary is an association
  list in insertion order with distinct keys; \<open>d.get(k)\<close> is \<open>map_of d k\<close>.
  Floats are reals (NaN and the infinities are not represented), strings are
  \<open>char list\<close>.
\<close>

datatype pyval =
    PNone
  | PBool bool
  | PInt int
  | PFloat real
  | PStr string
  | PList "pyval list"
  | PDict "(string \<times> pyval) list"

type_synonym pydict = "(string \<times> pyval) list"

text \<open>Truth value of a Python object, as \<open>if x:\<close> and \<open>not x\<close> test it.\<close>

fun truthy :: "pyval \<Rightarrow> bool" where
  "truthy PNone = False"
| "truthy (PBool b) = b"
| "truthy (PInt i) = (i \<noteq> 0)"
| "truthy (PFloat x) = (x \<noteq> 0)"
| "truthy (PStr s) = (s \<noteq> [])"
| "truthy (PList xs) = (xs \<noteq> [])"
| "truthy (PDict d) = (d \<noteq> [])"

text \<open>\<open>d.get(k)\<close> (default \<open>None\<close>) and \<open>d.get(k, dflt)\<close>.\<close>

definition dict_get :: "pydict \<Rightarrow> string \<Rightarrow> pyval" where
  "dict_get d k = (case map_of d k of None \<Rightarrow> PNone | Some v \<Rightarrow> v)"

definition dict_get_default :: "pydict \<Rightarrow> string \<Rightarrow> pyval \<Rightarrow> pyval" where
  "dict_get_default d k dflt = (case map_of d k of None \<Rightarrow> dflt | Some v \<Rightarrow> v)"

text \<open>
  Exceptions that can reach the orchestrator. \<open>Raised m\<close> is an instance of
  \<open>Exception\<close> whose \<open>str(e)\<close> is \<open>m\<close>, raised by a collaborator (the generation
  call, a worker) or by a library call (\<open>json.loads\<close>, \<open>str\<close>). \<open>NonException m\<close> is an
  exception outside the \<open>Exception\<close> hierarchy (\<open>SystemExit\<close>, \<open>KeyboardInterrupt\<close>,
  \<open>GeneratorExit\<close>) raised by a collaborator. The others are instances of \<open>Exception\<close>
  raised by the interpreter itself: \<open>KeyError\<close> by \<open>d[k]\<close> on a missing key,
  \<open>NotIterable\<close> (a TypeError) by iterating a value that is no container,
  \<open>NoAttributeGet\<close> (an AttributeError) by \<open>x.get\<close> on a value that is no dictionary,
  \<open>Unhashable\<close> (a TypeError) by a membership test of a list or dictionary in a set
  or dictionary.
\<close>

datatype exn =
    Raised string
  | NonException string
  | KeyError
  | NotIterable
  | NoAttributeGet
  | Unhashable

text \<open>Whether a handler \<open>except Exception\<close> catches the exception.\<close>

fun is_Exception :: "exn \<Rightarrow> bool" where
  "is_Exception (NonException m) = False"
| "is_Exception x = True"

section \<open>The external collaborators\<close>

text \<open>
  A request to the generation service is represented by the values interpolated into
  its prompt; the constant text of the prompt and the system message that
  \<open>_build_messages\<close> puts in front of it are not reproduced.
\<close>

datatype prompt =
    PlanningPrompt string string
  | SynthesisPrompt string string

datatype llm_outcome = Generated string | LLMRaises exn

text \<open>
  \<open>json.loads\<close> returns the parsed value, raises \<open>json.JSONDecodeError\<close>, or raises
  another exception: \<open>RecursionError\<close> on a deeply nested text, \<open>ValueError\<close> on a
  number with more digits than the interpreter converts. \<open>str\<close> and string formatting
  return the text or raise (the same \<open>ValueError\<close> on a large integer,
  \<open>RecursionError\<close> on a deeply nested value).
\<close>

datatype json_outcome = Parsed pyval | JSONDecodeError | JSONRaises string

datatype str_outcome = Text string | StrRaises string

text \<open>
  What the code uses without defining it is a parameter of the model:
  \<^item> \<open>call_llm\<close>: \<open>BaseAgent._call_llm\<close> as the orchestrator sees it, returning the
    generated text or raising;
  \<^item> \<open>json_loads\<close>: \<open>json.loads\<close>;
  \<^item> \<open>py_repr\<close>: what \<open>str\<close> does on numbers, lists and dictionaries;
  \<^item> \<open>interp_message\<close>: the message text of an exception raised by the interpreter.

  The generated text is a string, as the signature of \<open>_call_llm\<close> says. Exceptions
  outside \<open>Exception\<close> are modelled where collaborator code runs (a worker's
  \<open>execute\<close>, the generation call); a call that never returns, and an interrupt
  delivered while the orchestrator's own statements run, are outside the model.
\<close>

record env =
  call_llm :: "prompt \<Rightarrow> llm_outcome"
  json_loads :: "string \<Rightarrow> json_outcome"
  py_repr :: "pyval \<Rightarrow> str_outcome"
  interp_message :: "exn \<Rightarrow> string"

text \<open>\<open>str(v)\<close>, also as an f-string formats \<open>{v}\<close>.\<close>

definition py_str :: "env \<Rightarrow> pyval \<Rightarrow> str_outcome" where
  "py_str e v =
     (case v of
        PStr s \<Rightarrow> Text s
      | PNone \<Rightarrow> Text ''None''
      | PBool b \<Rightarrow> Text (if b then ''True'' else ''False'')
      | _ \<Rightarrow> py_repr e v)"

text \<open>\<open>str(e)\<close> for an exception \<open>e\<close>.\<close>

definition str_exn :: "env \<Rightarrow> exn \<Rightarrow> string" where
  "str_exn e x =
     (case x of Raised m \<Rightarrow> m | NonException m \<Rightarrow> m | _ \<Rightarrow> interp_message e x)"

section \<open>Shared state (base_agent.py)\<close>

text \<open>
  Time stamps are left out of messages and of history entries. The field \<open>context\<close>
  of \<open>AgentState\<close> is \<open>ctxt\<close> here.
\<close>

record message =
  sender :: string
  recipient :: string
  content :: pyval
  message_type :: string
  metadata :: pyval

text \<open>\<open>AgentMessage.__init__\<close>: \<open>self.metadata = metadata or {}\<close>.\<close>

definition AgentMessage :: "string \<Rightarrow> string \<Rightarrow> pyval \<Rightarrow> string \<Rightarrow> pyval \<Rightarrow> message" where
  "AgentMessage sndr rcpt cnt mtype md =
     \<lparr>sender = sndr, recipient = rcpt, content = cnt, message_type = mtype,
      metadata = (if truthy md then md else PDict [])\<rparr>"

datatype hist_entry = HistMessage message | HistResult string pydict

record state =
  messages :: "message list"
  results :: "(string \<times> pydict) list"
  ctxt :: pydict
  history :: "hist_entry list"
  current_agent :: "string option"
  iteration :: int

definition AgentState :: state where
  "AgentState =
     \<lparr>messages = [], results = [], ctxt = [], history = [],
      current_agent = None, iteration = 0\<rparr>"

definition add_message :: "message \<Rightarrow> state \<Rightarrow> state" where
  "add_message m s =
     s\<lparr>messages := messages s @ [m], history := history s @ [HistMessage m]\<rparr>"

definition set_result :: "string \<Rightarrow> pydict \<Rightarrow> state \<Rightarrow> state" where
  "set_result agent result s =
     s\<lparr>results := AList.update agent result (results s),
       history := history s @ [HistResult agent result]\<rparr>"

definition get_result :: "state \<Rightarrow> string \<Rightarrow> pydict option" where
  "get_result s agent = map_of (results s) agent"


section \<open>Workers\<close>

text \<open>
  A worker is any \<open>BaseAgent\<close>: its \<open>execute(task, state)\<close> receives the instruction
  and the shared state object, which it may mutate, and either returns a result
  dictionary or raises an exception. The state it leaves behind is part of the outcome
  in both cases.
\<close>

datatype outcome = Returns pydict | Raises exn

record agent =
  agent_name :: string
  agent_role :: string
  agent_execute :: "pyval \<Rightarrow> state \<Rightarrow> outcome \<times> state"

type_synonym registry = "(string \<times> agent) list"

text \<open>
  \<open>agent_id in self.agents\<close> followed by \<open>self.agents[agent_id]\<close>: the keys of the
  registry are strings, so a string is looked up, any other hashable value is absent,
  and a list or dictionary cannot be hashed.
\<close>

definition registry_lookup :: "registry \<Rightarrow> pyval \<Rightarrow> exn + (string \<times> agent) option" where
  "registry_lookup agents v =
     (case v of
        PStr a \<Rightarrow> Inr (map_option (\<lambda>ag. (a, ag)) (map_of agents a))
      | PList _ \<Rightarrow> Inl Unhashable
      | PDict _ \<Rightarrow> Inl Unhashable
      | _ \<Rightarrow> Inr None)"

section \<open>Workflow templates (config.py)\<close>

record template =
  t_name :: string
  t_description :: string
  t_agents :: "string list"
  t_steps :: "pydict list"

definition mk_step :: "string \<Rightarrow> string \<Rightarrow> pydict" where
  "mk_step a act = [(''agent'', PStr a), (''action'', PStr act)]"

definition WORKFLOW_TEMPLATES :: "(string \<times> template) list" where
  "WORKFLOW_TEMPLATES =
     [(''research_report'',
        \<lparr>t_name = ''Research Report'',
         t_description = ''Create a comprehensive research report'',
         t_agents = [''research'', ''data'', ''writing'', ''qa''],
         t_steps = [mk_step ''research'' ''gather_information'',
                    mk_step ''data'' ''analyze_data'',
                    mk_step ''writing'' ''create_report'',
                    mk_step ''qa'' ''review_quality'']\<rparr>),
      (''data_analysis'',
        \<lparr>t_name = ''Data Analysis'',
         t_description = ''Analyze dataset and generate insights'',
         t_agents = [''code'', ''data'', ''writing''],
         t_steps = [mk_step ''code'' ''load_and_clean_data'',
                    mk_step ''data'' ''perform_analysis'',
                    mk_step ''data'' ''create_visualizations'',
                    mk_step ''writing'' ''summarize_insights'']\<rparr>),
      (''code_project'',
        \<lparr>t_name = ''Code Project'',
         t_description = ''Generate code with tests and documentation'',
         t_agents = [''code'', ''qa'', ''writing''],
         t_steps = [mk_step ''code'' ''generate_code'',
                    mk_step ''code'' ''write_tests'',
                    mk_step ''qa'' ''code_review'',
                    mk_step ''writing'' ''create_documentation'']\<rparr>)]"

section \<open>Planner (orchestrator.py)\<close>

text \<open>
  \<open>str.lower\<close> on the letters A to Z; every other character of the 8-bit \<open>char\<close> type
  is left as it is.
\<close>

definition lower_char :: "char \<Rightarrow> char" where
  "lower_char c =
     (case map_of (zip ''ABCDEFGHIJKLMNOPQRSTUVWXYZ'' ''abcdefghijklmnopqrstuvwxyz'') c of
        None \<Rightarrow> c
      | Some l \<Rightarrow> l)"

definition lower :: "string \<Rightarrow> string" where
  "lower s = map lower_char s"

text \<open>\<open>s.startswith(kw)\<close> and the substring test \<open>kw in s\<close>.\<close>

fun startswith :: "string \<Rightarrow> string \<Rightarrow> bool" where
  "startswith s [] = True"
| "startswith [] (k # ks) = False"
| "startswith (c # cs) (k # ks) = (c = k \<and> startswith cs ks)"

fun contains :: "string \<Rightarrow> string \<Rightarrow> bool" where
  "contains [] kw = (kw = [])"
| "contains (c # cs) kw = (startswith (c # cs) kw \<or> contains cs kw)"

text \<open>
  The dictionary \<open>keywords\<close> of \<open>_match_template\<close>, in the order it declares its
  entries.
\<close>

definition keyword_table :: "(string \<times> string list) list" where
  "keyword_table =
     [(''research_report'', [''research'', ''report'', ''analysis'', ''study'']),
      (''data_analysis'', [''analyze'', ''data'', ''dataset'', ''csv'']),
      (''code_project'', [''code'', ''build'', ''create'', ''program'', ''script''])]"

text \<open>
  The loop of \<open>_match_template\<close> over the table: the first entry with a keyword in the
  lower-cased task decides, and the result is \<open>self.workflow_templates.get(template_id)\<close>.
\<close>

fun match_keywords :: "(string \<times> string list) list \<Rightarrow> string \<Rightarrow> template option" where
  "match_keywords [] task_lower = None"
| "match_keywords ((template_id, template_keywords) # rest) task_lower =
     (if list_ex (\<lambda>kw. contains task_lower kw) template_keywords
      then map_of WORKFLOW_TEMPLATES template_id
      else match_keywords rest task_lower)"

definition match_template :: "string \<Rightarrow> template option" where
  "match_template task = match_keywords keyword_table (lower task)"

definition newline :: string where
  "newline = [CHR 0x0A]"

text \<open>\<open>sep.join(xs)\<close>.\<close>

fun join :: "string \<Rightarrow> string list \<Rightarrow> string" where
  "join sep [] = []"
| "join sep [x] = x"
| "join sep (x # y # ys) = x @ sep @ join sep (y # ys)"

definition agent_descriptions :: "registry \<Rightarrow> string" where
  "agent_descriptions agents =
     join newline (map (\<lambda>(agent_id, ag). ''- '' @ agent_id @ '': '' @ agent_role ag) agents)"

text \<open>\<open>for step in plan\<close>: what iterating the parsed response yields.\<close>

fun py_iter :: "pyval \<Rightarrow> exn + pyval list" where
  "py_iter (PList xs) = Inr xs"
| "py_iter (PDict d) = Inr (map (\<lambda>(k, v). PStr k) d)"
| "py_iter (PStr s) = Inr (map (\<lambda>c. PStr [c]) s)"
| "py_iter v = Inl NotIterable"

text \<open>\<open>x in valid_agents\<close> for the set of registered identifiers.\<close>

fun in_valid_agents :: "string list \<Rightarrow> pyval \<Rightarrow> exn + bool" where
  "in_valid_agents valid (PStr a) = Inr (a \<in> set valid)"
| "in_valid_agents valid (PList xs) = Inl Unhashable"
| "in_valid_agents valid (PDict d) = Inl Unhashable"
| "in_valid_agents valid v = Inr False"

text \<open>
  The list comprehension \<open>[step for step in plan if step.get("agent") in valid_agents]\<close>,
  element by element: the first element that is no dictionary, or whose agent cannot be
  hashed, raises.
\<close>

fun validate_steps :: "string list \<Rightarrow> pyval list \<Rightarrow> exn + pydict list" where
  "validate_steps valid [] = Inr []"
| "validate_steps valid (PDict d # xs) =
     (case in_valid_agents valid (dict_get d ''agent'') of
        Inl e \<Rightarrow> Inl e
      | Inr keep \<Rightarrow>
          (case validate_steps valid xs of
             Inl e \<Rightarrow> Inl e
           | Inr ys \<Rightarrow> Inr (if keep then d # ys else ys)))"
| "validate_steps valid (v # xs) = Inl NoAttributeGet"

text \<open>
  The filter as the specification words it: a step is kept when it is a dictionary whose
  \<open>agent\<close> names a registered worker. It is compared with \<open>validate_steps\<close> below.
\<close>

definition registered_step :: "string list \<Rightarrow> pyval \<Rightarrow> bool" where
  "registered_step valid x =
     (case x of
        PDict d \<Rightarrow> (case dict_get d ''agent'' of PStr a \<Rightarrow> a \<in> set valid | _ \<Rightarrow> False)
      | _ \<Rightarrow> False)"

definition fallback_plan :: "pydict list" where
  "fallback_plan =
     [mk_step ''research'' ''gather information'', mk_step ''writing'' ''create output'']"

definition default_plan :: "pydict list" where
  "default_plan =
     [mk_step ''research'' ''research task'', mk_step ''writing'' ''write response'']"

text \<open>
  \<open>_create_custom_plan\<close> and \<open>_create_plan\<close> return the list of prompts they submitted
  to the generation service together with the plan or the exception that escapes. The
  handler of \<open>_create_custom_plan\<close> is \<open>except json.JSONDecodeError\<close>: it catches that
  exception of \<open>json.loads\<close> and no other.
\<close>

definition create_custom_plan :: "env \<Rightarrow> registry \<Rightarrow> string \<Rightarrow> prompt list \<times> (exn + pydict list)" where
  "create_custom_plan e agents task =
     (let planning_prompt = PlanningPrompt task (agent_descriptions agents) in
      case call_llm e planning_prompt of
        LLMRaises x \<Rightarrow> ([planning_prompt], Inl x)
      | Generated response \<Rightarrow>
          (case json_loads e response of
             JSONDecodeError \<Rightarrow> ([planning_prompt], Inr default_plan)
           | JSONRaises m \<Rightarrow> ([planning_prompt], Inl (Raised m))
           | Parsed parsed \<Rightarrow>
               (case py_iter parsed of
                  Inl x \<Rightarrow> ([planning_prompt], Inl x)
                | Inr items \<Rightarrow>
                    (case validate_steps (map fst agents) items of
                       Inl x \<Rightarrow> ([planning_prompt], Inl x)
                     | Inr plan \<Rightarrow>
                         ([planning_prompt],
                          Inr (if plan = [] then fallback_plan else plan))))))"

definition create_plan :: "env \<Rightarrow> registry \<Rightarrow> string \<Rightarrow> prompt list \<times> (exn + pydict list)" where
  "create_plan e agents task =
     (case match_template task of
        Some template \<Rightarrow> ([], Inr (t_steps template))
      | None \<Rightarrow> create_custom_plan e agents task)"

section \<open>Step executor (orchestrator.py)\<close>

definition quote :: string where
  "quote = [CHR 0x27]"

text \<open>\<open>step.get("action", "execute task")\<close>.\<close>

definition step_action :: "pydict \<Rightarrow> pyval" where
  "step_action step = dict_get_default step ''action'' (PStr ''execute task'')"

text \<open>
  \<open>str(result.get("output", ""))\<close>, and the two messages of a step: the instruction
  sent to the worker, and the worker's answer, whose content is the text of the output
  and whose metadata is \<open>result.get("metadata", {})\<close>.
\<close>

definition output_str :: "env \<Rightarrow> pydict \<Rightarrow> str_outcome" where
  "output_str e result = py_str e (dict_get_default result ''output'' (PStr []))"

definition task_message :: "string \<Rightarrow> pyval \<Rightarrow> message" where
  "task_message aid action = AgentMessage ''orchestrator'' aid action ''task'' PNone"

definition response_message :: "string \<Rightarrow> string \<Rightarrow> pydict \<Rightarrow> message" where
  "response_message aid output_text result =
     AgentMessage aid ''orchestrator'' (PStr output_text) ''result''
       (dict_get_default result ''metadata'' (PDict []))"

text \<open>
  The two failure dictionaries of \<open>_execute_step\<close>: for an identifier that is not
  registered (with the text of the identifier), and for an exception caught from the
  worker (with \<open>str(e)\<close>).
\<close>

definition unavailable_result :: "string \<Rightarrow> pydict" where
  "unavailable_result id_text =
     [(''success'', PBool False),
      (''error'', PStr (''Agent '' @ quote @ id_text @ quote @ '' not available''))]"

definition raised_result :: "string \<Rightarrow> string \<Rightarrow> pydict" where
  "raised_result aid m =
     [(''success'', PBool False), (''error'', PStr m), (''agent'', PStr aid)]"

text \<open>
  \<open>_execute_step\<close>. The result is the pair of what the call returns (or the exception
  that escapes it) and the shared state as the call leaves it.
  \<^item> \<open>step["agent"]\<close> raises on a step without that key, the membership test raises
    on an identifier that cannot be hashed, and formatting the identifier into the
    "not available" text can raise: all before the state is touched and outside the
    \<open>try\<close> block.
  \<^item> The \<open>try\<close> block holds the worker's call, \<open>set_result\<close>, the construction of the
    answer message and \<open>add_message\<close>. Its handler is \<open>except Exception\<close>: an
    exception of the worker that is an \<open>Exception\<close> gives the failure dictionary, any
    other escapes. When \<open>str\<close> of the output raises, the result is already stored; the
    handler gives the failure dictionary and no answer message is recorded.
\<close>

definition execute_step :: "env \<Rightarrow> registry \<Rightarrow> pydict \<Rightarrow> state \<Rightarrow> (exn + pydict) \<times> state" where
  "execute_step e agents step s =
     (case map_of step ''agent'' of
        None \<Rightarrow> (Inl KeyError, s)
      | Some agent_id \<Rightarrow>
          (let action = step_action step in
           case registry_lookup agents agent_id of
             Inl x \<Rightarrow> (Inl x, s)
           | Inr None \<Rightarrow>
               (case py_str e agent_id of
                  StrRaises m \<Rightarrow> (Inl (Raised m), s)
                | Text id_text \<Rightarrow> (Inr (unavailable_result id_text), s))
           | Inr (Some (aid, ag)) \<Rightarrow>
               (let s1 = s\<lparr>current_agent := Some aid\<rparr>;
                    s2 = add_message (task_message aid action) s1
                in case agent_execute ag action s2 of
                     (Raises x, s3) \<Rightarrow>
                       (if is_Exception x then (Inr (raised_result aid (str_exn e x)), s3)
                        else (Inl x, s3))
                   | (Returns result, s3) \<Rightarrow>
                       (let s4 = set_result aid result s3 in
                        case output_str e result of
                          StrRaises m \<Rightarrow> (Inr (raised_result aid m), s4)
                        | Text output_text \<Rightarrow>
                            (let s5 = add_message (response_message aid output_text result) s4
                             in (Inr result, s5))))))"

text \<open>
  The state on which \<open>_execute_step\<close> invokes a registered worker: \<open>current_agent\<close>
  is set and the instruction message is recorded.
\<close>

definition worker_input :: "string \<Rightarrow> pyval \<Rightarrow> state \<Rightarrow> state" where
  "worker_input aid action s =
     add_message (task_message aid action) (s\<lparr>current_agent := Some aid\<rparr>)"

section \<open>Run loop (orchestrator.py)\<close>



section \<open>Synthesizer (orchestrator.py)\<close>

text \<open>
  The loop of \<open>_synthesize_results\<close> over \<open>zip(plan, results)\<close>: the texts of the
  successful outputs, or the exception of \<open>self.agents[step["agent"]]\<close> or of
  formatting an output, whichever comes first.
\<close>

fun collect_outputs :: "env \<Rightarrow> registry \<Rightarrow> (pydict \<times> pydict) list \<Rightarrow> exn + string list" where
  "collect_outputs e agents [] = Inr []"
| "collect_outputs e agents ((step, result) # rest) =
     (if truthy (dict_get result ''success'') then
        (case map_of step ''agent'' of
           None \<Rightarrow> Inl KeyError
         | Some agent_id \<Rightarrow>
             (case registry_lookup agents agent_id of
                Inl x \<Rightarrow> Inl x
              | Inr None \<Rightarrow> Inl KeyError
              | Inr (Some (aid, ag)) \<Rightarrow>
                  (case output_str e result of
                     StrRaises m \<Rightarrow> Inl (Raised m)
                   | Text output_text \<Rightarrow>
                       (case collect_outputs e agents rest of
                          Inl x \<Rightarrow> Inl x
                        | Inr outs \<Rightarrow>
                            Inr ((''**'' @ agent_name ag @ ''**:'' @ newline
                                  @ output_text @ newline) # outs)))))
      else collect_outputs e agents rest)"

definition no_outputs_message :: string where
  "no_outputs_message = ''No successful outputs from agents.''"

definition synthesize_results ::
  "env \<Rightarrow> registry \<Rightarrow> string \<Rightarrow> pydict list \<Rightarrow> pydict list \<Rightarrow> prompt list \<times> (exn + string)"
where
  "synthesize_results e agents task plan rs =
     (case collect_outputs e agents (zip plan rs) of
        Inl x \<Rightarrow> ([], Inl x)
      | Inr outputs \<Rightarrow>
          (if outputs = [] then ([], Inr no_outputs_message)
           else
             (let synthesis_prompt = SynthesisPrompt task (join newline outputs) in
              case call_llm e synthesis_prompt of
                LLMRaises x \<Rightarrow> ([synthesis_prompt], Inl x)
              | Generated synthesized \<Rightarrow> ([synthesis_prompt], Inr synthesized))))"

section \<open>Orchestrator.execute\<close>





section \<open>MultiAgentSystem.execute (main_system.py)\<close>









section \<open>Example configurations\<close>

text \<open>
  Concrete collaborators on which the theorems below are instantiated: a generation
  service whose answer is no JSON, one that answers with a one-step plan, one whose
  answer makes \<open>json.loads\<close> run out of stack, one that is down; a \<open>str\<close> that refuses
  integers; workers that return a fixed result, workers that raise, and a worker that
  ends the process.
\<close>

definition example_env :: env where
  "example_env =
     \<lparr>call_llm = (\<lambda>p. Generated ''no plan''), json_loads = (\<lambda>r. JSONDecodeError),
      py_repr = (\<lambda>v. Text ''?''), interp_message = (\<lambda>x. ''?'')\<rparr>"

definition one_step_env :: env where
  "one_step_env =
     \<lparr>call_llm = (\<lambda>p. Generated ''[...]''),
      json_loads = (\<lambda>r. Parsed (PList [PDict (mk_step ''research'' ''look it up'')])),
      py_repr = (\<lambda>v. Text ''?''), interp_message = (\<lambda>x. ''?'')\<rparr>"

text \<open>
  The text of 100000 opening brackets: no JSON, and \<open>json.loads\<close> raises
  \<open>RecursionError\<close> on it.
\<close>

definition deep_text :: string where
  "deep_text = replicate 100000 (CHR ''['')"

definition recursion_message :: string where
  "recursion_message =
     ''maximum recursion depth exceeded while decoding a JSON array from a unicode string''"

definition nested_env :: env where
  "nested_env =
     \<lparr>call_llm = (\<lambda>p. Generated deep_text),
      json_loads = (\<lambda>r. if r = deep_text then JSONRaises recursion_message
                         else JSONDecodeError),
      py_repr = (\<lambda>v. Text ''?''), interp_message = (\<lambda>x. ''?'')\<rparr>"

definition failing_env :: env where
  "failing_env =
     \<lparr>call_llm = (\<lambda>p. LLMRaises (Raised ''service unavailable'')),
      json_loads = (\<lambda>r. JSONDecodeError),
      py_repr = (\<lambda>v. Text ''?''), interp_message = (\<lambda>x. ''?'')\<rparr>"

text \<open>
  The integer \<open>10 ** 5000\<close>, which \<open>str\<close> refuses to convert (more than 4300 digits),
  and an environment whose \<open>str\<close> does so.
\<close>

definition big_int :: int where
  "big_int = 10 ^ 5000"

definition digits_message :: string where
  "digits_message = ''Exceeds the limit (4300 digits) for integer string conversion''"

definition strict_env :: env where
  "strict_env =
     \<lparr>call_llm = (\<lambda>p. Generated ''no plan''), json_loads = (\<lambda>r. JSONDecodeError),
      py_repr = (\<lambda>v. if v = PInt big_int then StrRaises digits_message else Text ''?''),
      interp_message = (\<lambda>x. ''?'')\<rparr>"

definition ok_result :: pydict where
  "ok_result =
     [(''output'', PStr ''done''), (''success'', PBool True), (''error'', PNone),
      (''metadata'', PDict [])]"

definition failed_result :: pydict where
  "failed_result =
     [(''output'', PNone), (''success'', PBool False), (''error'', PStr ''no data''),
      (''metadata'', PDict [])]"

definition big_result :: pydict where
  "big_result =
     [(''output'', PInt big_int), (''success'', PBool True), (''error'', PNone),
      (''metadata'', PDict [])]"

definition returning_agent :: "string \<Rightarrow> pydict \<Rightarrow> agent" where
  "returning_agent nm r =
     \<lparr>agent_name = nm, agent_role = ''Agent'',
      agent_execute = (\<lambda>action s. (Returns r, s))\<rparr>"

definition raising_agent :: "string \<Rightarrow> exn \<Rightarrow> agent" where
  "raising_agent nm x =
     \<lparr>agent_name = nm, agent_role = ''Agent'',
      agent_execute = (\<lambda>action s. (Raises x, s))\<rparr>"

text \<open>The registry of \<open>MultiAgentSystem\<close>: five workers, here all succeeding.\<close>

definition standard_agents :: registry where
  "standard_agents =
     [(''research'', returning_agent ''Research Agent'' ok_result),
      (''code'', returning_agent ''Code Agent'' ok_result),
      (''data'', returning_agent ''Data Agent'' ok_result),
      (''writing'', returning_agent ''Writing Agent'' ok_result),
      (''qa'', returning_agent ''QA Agent'' ok_result)]"

definition research_only :: registry where
  "research_only = [(''research'', returning_agent ''Research Agent'' ok_result)]"


definition unlucky_agents :: registry where
  "unlucky_agents =
     [(''research'', returning_agent ''Research Agent'' failed_result),
      (''writing'', raising_agent ''Writing Agent'' (Raised ''disk full''))]"


definition big_agents :: registry where
  "big_agents = [(''research'', returning_agent ''Research Agent'' big_result)]"


section \<open>Substring test and template matching\<close>

lemma startswith_iff: "startswith s kw \<longleftrightarrow> (\<exists>q. s = kw @ q)"
  by (induction s kw rule: startswith.induct) auto

text \<open>\<open>contains s kw\<close> holds exactly when \<open>kw\<close> occurs in \<open>s\<close> as a contiguous piece.\<close>

lemma contains_iff: "contains s kw \<longleftrightarrow> (\<exists>p q. s = p @ kw @ q)"
proof (induction s)
  case Nil
  then show ?case by auto
next
  case (Cons c cs)
  have "(\<exists>p q. c # cs = p @ kw @ q) \<longleftrightarrow> (\<exists>q. c # cs = kw @ q) \<or> (\<exists>p q. cs = p @ kw @ q)"
  proof
    assume "\<exists>p q. c # cs = p @ kw @ q"
    then obtain p q where pq: "c # cs = p @ kw @ q" by blast
    show "(\<exists>q. c # cs = kw @ q) \<or> (\<exists>p q. cs = p @ kw @ q)"
    proof (cases p)
      case Nil
      with pq show ?thesis by auto
    next
      case (Cons a p')
      with pq have "cs = p' @ kw @ q" by simp
      then show ?thesis by blast
    qed
  next
    assume "(\<exists>q. c # cs = kw @ q) \<or> (\<exists>p q. cs = p @ kw @ q)"
    then show "\<exists>p q. c # cs = p @ kw @ q"
    proof
      assume "\<exists>q. c # cs = kw @ q"
      then obtain q where "c # cs = [] @ kw @ q" by auto
      then show ?thesis by blast
    next
      assume "\<exists>p q. cs = p @ kw @ q"
      then obtain p q where "c # cs = (c # p) @ kw @ q" by auto
      then show ?thesis by blast
    qed
  qed
  with Cons show ?case by (simp add: startswith_iff)
qed

text \<open>The loop returns the template of the first entry one of whose keywords occurs.\<close>

lemma match_keywords_first:
  "i < length tbl \<Longrightarrow> list_ex (contains low) (snd (tbl ! i)) \<Longrightarrow>
   \<forall>j<i. \<not> list_ex (contains low) (snd (tbl ! j)) \<Longrightarrow>
   match_keywords tbl low = map_of WORKFLOW_TEMPLATES (fst (tbl ! i))"
proof (induction tbl arbitrary: i)
  case Nil
  then show ?case by simp
next
  case (Cons entry rest)
  obtain tid kws where entry: "entry = (tid, kws)" by (cases entry)
  show ?case
  proof (cases i)
    case 0
    with Cons.prems entry show ?thesis by simp
  next
    case (Suc k)
    from Cons.prems(3) Suc have "\<not> list_ex (contains low) (snd ((entry # rest) ! 0))" by blast
    then have nohead: "\<not> list_ex (contains low) kws" using entry by simp
    have "\<forall>j<k. \<not> list_ex (contains low) (snd (rest ! j))"
    proof (intro allI impI)
      fix j assume "j < k"
      then have "Suc j < i" using Suc by simp
      with Cons.prems(3) have "\<not> list_ex (contains low) (snd ((entry # rest) ! Suc j))" by blast
      then show "\<not> list_ex (contains low) (snd (rest ! j))" by simp
    qed
    moreover have "k < length rest" using Cons.prems(1) Suc by simp
    moreover have "list_ex (contains low) (snd (rest ! k))" using Cons.prems(2) Suc by simp
    ultimately have "match_keywords rest low = map_of WORKFLOW_TEMPLATES (fst (rest ! k))"
      by (rule Cons.IH[rotated 2])
    with nohead entry Suc show ?thesis by simp
  qed
qed

lemma match_keywords_none:
  "\<forall>entry \<in> set tbl. \<not> list_ex (contains low) (snd entry) \<Longrightarrow> match_keywords tbl low = None"
  by (induction tbl) auto

lemma keyword_table_templates:
  assumes "i < length keyword_table"
  shows "\<exists>t. map_of WORKFLOW_TEMPLATES (fst (keyword_table ! i)) = Some t"
proof -
  from assms have "i = 0 \<or> i = 1 \<or> i = 2" by (auto simp: keyword_table_def)
  then show ?thesis by (auto simp: keyword_table_def WORKFLOW_TEMPLATES_def)
qed

lemma lower_rest_api:
  "lower ''Build a REST API for a todo app'' = ''build a rest api for a todo app''"
  by (simp add: lower_def lower_char_def)

lemma match_template_rest_api:
  "match_template ''Build a REST API for a todo app'' =
     map_of WORKFLOW_TEMPLATES ''code_project''"
  by (simp add: match_template_def lower_rest_api keyword_table_def)

section \<open>Planner: template match\<close>

text \<open>
  Claim C1. When the lower-cased task contains a keyword of the \<open>i\<close>-th entry of the
  keyword table and no keyword of an earlier entry, \<open>_create_plan\<close> returns exactly the
  declared steps of that entry's template, without a generation call: the first match
  in declaration order wins. The task "Build a REST API for a todo app" gets the plan
  of \<open>code_project\<close>, whose workers are code, code, qa, writing in this order.
\<close>

theorem plan_template_match:
  assumes "i < length keyword_table"
    and "\<exists>kw \<in> set (snd (keyword_table ! i)). contains (lower task) kw"
    and "\<forall>j<i. \<forall>kw \<in> set (snd (keyword_table ! j)). \<not> contains (lower task) kw"
  shows "(\<exists>t. map_of WORKFLOW_TEMPLATES (fst (keyword_table ! i)) = Some t
            \<and> create_plan e agents task = ([], Inr (t_steps t)))
       \<and> create_plan e agents ''Build a REST API for a todo app'' =
           ([], Inr [mk_step ''code'' ''generate_code'', mk_step ''code'' ''write_tests'',
                     mk_step ''qa'' ''code_review'',
                     mk_step ''writing'' ''create_documentation''])
       \<and> map (\<lambda>st. dict_get st ''agent'')
             [mk_step ''code'' ''generate_code'', mk_step ''code'' ''write_tests'',
              mk_step ''qa'' ''code_review'', mk_step ''writing'' ''create_documentation'']
           = [PStr ''code'', PStr ''code'', PStr ''qa'', PStr ''writing'']"
proof (intro conjI)
  from keyword_table_templates[OF assms(1)] obtain t
    where t: "map_of WORKFLOW_TEMPLATES (fst (keyword_table ! i)) = Some t" by blast
  have "match_keywords keyword_table (lower task)
          = map_of WORKFLOW_TEMPLATES (fst (keyword_table ! i))"
    using assms by (intro match_keywords_first) (auto simp: list_ex_iff)
  with t have "match_template task = Some t" by (simp add: match_template_def)
  then have "create_plan e agents task = ([], Inr (t_steps t))"
    by (simp add: create_plan_def)
  with t show "\<exists>t. map_of WORKFLOW_TEMPLATES (fst (keyword_table ! i)) = Some t
            \<and> create_plan e agents task = ([], Inr (t_steps t))" by blast
next
  show "create_plan e agents ''Build a REST API for a todo app'' =
           ([], Inr [mk_step ''code'' ''generate_code'', mk_step ''code'' ''write_tests'',
                     mk_step ''qa'' ''code_review'',
                     mk_step ''writing'' ''create_documentation''])"
    by (simp add: create_plan_def match_template_rest_api WORKFLOW_TEMPLATES_def)
next
  show "map (\<lambda>st. dict_get st ''agent'')
             [mk_step ''code'' ''generate_code'', mk_step ''code'' ''write_tests'',
              mk_step ''qa'' ''code_review'', mk_step ''writing'' ''create_documentation'']
           = [PStr ''code'', PStr ''code'', PStr ''qa'', PStr ''writing'']"
    by (simp add: dict_get_def mk_step_def)
qed

theorem plan_template_match_witness:
  "(2::nat) < length keyword_table
   \<and> (\<exists>kw \<in> set (snd (keyword_table ! 2)).
         contains (lower ''Build a REST API for a todo app'') kw)
   \<and> \<not> (\<exists>j<2. \<exists>kw \<in> set (snd (keyword_table ! j)).
           contains (lower ''Build a REST API for a todo app'') kw)
   \<and> (\<exists>t. map_of WORKFLOW_TEMPLATES (fst (keyword_table ! 2)) = Some t
         \<and> create_plan example_env standard_agents ''Build a REST API for a todo app''
             = ([], Inr (t_steps t)))"
proof -
  have h1: "(2::nat) < length keyword_table" by (simp add: keyword_table_def)
  have h2: "\<exists>kw \<in> set (snd (keyword_table ! 2)).
              contains (lower ''Build a REST API for a todo app'') kw"
    by (simp add: keyword_table_def lower_rest_api)
  have h3: "\<forall>j<2. \<forall>kw \<in> set (snd (keyword_table ! j)).
              \<not> contains (lower ''Build a REST API for a todo app'') kw"
  proof (intro allI impI)
    fix j :: nat assume "j < 2"
    then have "j = 0 \<or> j = 1" by auto
    then show "\<forall>kw \<in> set (snd (keyword_table ! j)).
              \<not> contains (lower ''Build a REST API for a todo app'') kw"
      by (auto simp: keyword_table_def lower_rest_api)
  qed
  from plan_template_match[OF h1 h2 h3, of example_env standard_agents] h1 h2 h3
  show ?thesis by blast
qed

section \<open>Planner: malformed plan response\<close>

lemma lower_hello: "lower ''Say hello'' = ''say hello''"
  by (simp add: lower_def lower_char_def)

lemma match_template_hello: "match_template ''Say hello'' = None"
  by (simp add: match_template_def lower_hello keyword_table_def)

text \<open>
  Claim C4, as the code has it. When no template matches the task and \<open>json.loads\<close>
  rejects the text returned by the generation service with \<open>json.JSONDecodeError\<close>,
  \<open>_create_plan\<close> returns the default plan (research, then writing) and no exception.
  When \<open>json.loads\<close> fails on the text with any other exception, that exception
  leaves \<open>_create_plan\<close>: the handler names \<open>json.JSONDecodeError\<close> alone.
\<close>

theorem plan_default_on_malformed_json:
  assumes "match_template task = None"
    and "call_llm e (PlanningPrompt task (agent_descriptions agents)) = Generated response"
  shows "(json_loads e response = JSONDecodeError \<longrightarrow>
            create_plan e agents task =
              ([PlanningPrompt task (agent_descriptions agents)], Inr default_plan))
       \<and> (json_loads e response = JSONRaises m \<longrightarrow>
            create_plan e agents task =
              ([PlanningPrompt task (agent_descriptions agents)], Inl (Raised m)))
       \<and> map (\<lambda>st. dict_get st ''agent'') default_plan = [PStr ''research'', PStr ''writing'']"
  using assms
  by (simp add: create_plan_def create_custom_plan_def default_plan_def dict_get_def mk_step_def)

text \<open>
  No template matches "Say hello"; the response is the text of 100000 opening brackets,
  which is no valid JSON and on which \<open>json.loads\<close> raises \<open>RecursionError\<close>; and
  \<open>_create_plan\<close> raises instead of returning the default plan.
\<close>

theorem plan_default_on_malformed_json_counterexample:
  "match_template ''Say hello'' = None
   \<and> call_llm nested_env (PlanningPrompt ''Say hello'' (agent_descriptions standard_agents))
       = Generated deep_text
   \<and> json_loads nested_env deep_text = JSONRaises recursion_message
   \<and> create_plan nested_env standard_agents ''Say hello'' =
       ([PlanningPrompt ''Say hello'' (agent_descriptions standard_agents)],
        Inl (Raised recursion_message))"
  by (simp add: create_plan_def create_custom_plan_def match_template_hello nested_env_def)

theorem plan_default_on_malformed_json_witness:
  "match_template ''Say hello'' = None
   \<and> call_llm example_env (PlanningPrompt ''Say hello'' (agent_descriptions standard_agents))
       = Generated ''no plan''
   \<and> json_loads example_env ''no plan'' = JSONDecodeError
   \<and> create_plan example_env standard_agents ''Say hello'' =
       ([PlanningPrompt ''Say hello'' (agent_descriptions standard_agents)], Inr default_plan)"
proof -
  have h2: "call_llm example_env (PlanningPrompt ''Say hello'' (agent_descriptions standard_agents))
       = Generated ''no plan''" by (simp add: example_env_def)
  have h3: "json_loads example_env ''no plan'' = JSONDecodeError" by (simp add: example_env_def)
  from plan_default_on_malformed_json[OF match_template_hello h2] match_template_hello h2 h3
  show ?thesis by blast
qed

section \<open>Step executor: the ways a step ends\<close>

lemma execute_step_returns:
  assumes "map_of step ''agent'' = Some (PStr aid)" and "map_of agents aid = Some ag"
    and "agent_execute ag (step_action step) (worker_input aid (step_action step) s)
         = (Returns r, s3)"
    and "output_str e r = Text t"
  shows "execute_step e agents step s =
           (Inr r, add_message (response_message aid t r) (set_result aid r s3))"
  using assms by (simp add: execute_step_def registry_lookup_def worker_input_def Let_def)

lemma execute_step_unprintable:
  assumes "map_of step ''agent'' = Some (PStr aid)" and "map_of agents aid = Some ag"
    and "agent_execute ag (step_action step) (worker_input aid (step_action step) s)
         = (Returns r, s3)"
    and "output_str e r = StrRaises m"
  shows "execute_step e agents step s = (Inr (raised_result aid m), set_result aid r s3)"
  using assms by (simp add: execute_step_def registry_lookup_def worker_input_def Let_def)

lemma execute_step_raises:
  assumes "map_of step ''agent'' = Some (PStr aid)" and "map_of agents aid = Some ag"
    and "agent_execute ag (step_action step) (worker_input aid (step_action step) s)
         = (Raises x, s3)"
    and "is_Exception x"
  shows "execute_step e agents step s = (Inr (raised_result aid (str_exn e x)), s3)"
  using assms by (simp add: execute_step_def registry_lookup_def worker_input_def Let_def)

lemma execute_step_escapes:
  assumes "map_of step ''agent'' = Some (PStr aid)" and "map_of agents aid = Some ag"
    and "agent_execute ag (step_action step) (worker_input aid (step_action step) s)
         = (Raises x, s3)"
    and "\<not> is_Exception x"
  shows "execute_step e agents step s = (Inl x, s3)"
  using assms by (simp add: execute_step_def registry_lookup_def worker_input_def Let_def)

lemma execute_step_unregistered:
  assumes "map_of step ''agent'' = Some (PStr aid)" and "map_of agents aid = None"
  shows "execute_step e agents step s = (Inr (unavailable_result aid), s)"
  using assms by (simp add: execute_step_def registry_lookup_def py_str_def Let_def)

lemma mk_step_agent: "map_of (mk_step a act) ''agent'' = Some (PStr a)"
  by (simp add: mk_step_def)

lemma step_action_mk_step: "step_action (mk_step a act) = PStr act"
  by (simp add: step_action_def mk_step_def dict_get_default_def)

lemma returning_agent_execute: "agent_execute (returning_agent nm r) a s = (Returns r, s)"
  by (simp add: returning_agent_def)

lemma raising_agent_execute: "agent_execute (raising_agent nm x) a s = (Raises x, s)"
  by (simp add: raising_agent_def)

lemma output_str_failed_result: "output_str e failed_result = Text ''None''"
  by (simp add: output_str_def failed_result_def dict_get_default_def py_str_def)


lemma output_str_big_result:
  "output_str strict_env big_result = StrRaises digits_message"
  by (simp add: output_str_def big_result_def dict_get_default_def py_str_def strict_env_def)

section \<open>Synthesizer without successful results\<close>

lemma collect_outputs_none:
  "\<forall>p \<in> set prs. \<not> truthy (dict_get (snd p) ''success'') \<Longrightarrow> collect_outputs e agents prs = Inr []"
  by (induction prs) auto

text \<open>
  Claim C9. When no result of the run has a true \<open>success\<close>, \<open>_synthesize_results\<close>
  returns the fixed message "No successful outputs from agents." and submits no prompt
  to the generation service: the list of submitted prompts is empty.
\<close>

theorem synthesize_without_success:
  assumes "\<forall>r \<in> set rs. \<not> truthy (dict_get r ''success'')"
  shows "synthesize_results e agents task plan rs = ([], Inr no_outputs_message)"
proof -
  have "\<forall>p \<in> set (zip plan rs). \<not> truthy (dict_get (snd p) ''success'')"
    using assms by (auto dest: set_zip_rightD)
  then have "collect_outputs e agents (zip plan rs) = Inr []"
    by (rule collect_outputs_none)
  then show ?thesis by (simp add: synthesize_results_def)
qed

theorem synthesize_without_success_witness:
  "\<not> (\<exists>r \<in> set [failed_result, raised_result ''writing'' ''disk full''].
          truthy (dict_get r ''success''))
   \<and> synthesize_results failing_env unlucky_agents ''Say hello'' default_plan
        [failed_result, raised_result ''writing'' ''disk full'']
      = ([], Inr ''No successful outputs from agents.'')"
proof -
  have h: "\<forall>r \<in> set [failed_result, raised_result ''writing'' ''disk full''].
             \<not> truthy (dict_get r ''success'')"
    by (simp add: failed_result_def raised_result_def dict_get_def)
  from synthesize_without_success[OF h, of failing_env unlucky_agents "''Say hello''" default_plan] h
  show ?thesis by (simp add: no_outputs_message_def)
qed

section \<open>Step executor: result storage\<close>

text \<open>
  Claim C10. When the worker of a step is registered and its \<open>execute\<close> returns a
  result \<open>r\<close>, leaving the state \<open>s3\<close>, \<open>_execute_step\<close> stores \<open>r\<close> with
  \<open>set_result\<close>, whatever \<open>r\<close> says about success: \<open>r\<close> is the worker's entry of
  \<open>results\<close>. When \<open>str\<close> of the output can be taken, the call returns \<open>r\<close> and the
  history gains the result entry followed by the answer message; when it raises, the
  history gains the result entry alone and the call returns the failure dictionary.
  When the worker raises, \<open>results\<close> and the history are as the worker left them; when
  the worker is not registered, the state is as it was.
\<close>

theorem step_result_stored:
  "(map_of step ''agent'' = Some (PStr aid) \<and> map_of agents aid = Some ag
      \<and> agent_execute ag (step_action step) (worker_input aid (step_action step) s)
         = (Returns r, s3)
     \<longrightarrow> results (snd (execute_step e agents step s)) = AList.update aid r (results s3)
       \<and> get_result (snd (execute_step e agents step s)) aid = Some r
       \<and> (output_str e r = Text t
           \<longrightarrow> fst (execute_step e agents step s) = Inr r
             \<and> history (snd (execute_step e agents step s))
                 = history s3 @ [HistResult aid r, HistMessage (response_message aid t r)])
       \<and> (output_str e r = StrRaises m
           \<longrightarrow> fst (execute_step e agents step s) = Inr (raised_result aid m)
             \<and> history (snd (execute_step e agents step s)) = history s3 @ [HistResult aid r]))
   \<and> (map_of step ''agent'' = Some (PStr aid) \<and> map_of agents aid = Some ag
      \<and> agent_execute ag (step_action step) (worker_input aid (step_action step) s)
         = (Raises x, s3)
     \<longrightarrow> results (snd (execute_step e agents step s)) = results s3
       \<and> history (snd (execute_step e agents step s)) = history s3)
   \<and> (map_of step ''agent'' = Some (PStr aid) \<and> map_of agents aid = None
     \<longrightarrow> snd (execute_step e agents step s) = s)"
proof (intro conjI impI)
  assume a: "map_of step ''agent'' = Some (PStr aid) \<and> map_of agents aid = Some ag
      \<and> agent_execute ag (step_action step) (worker_input aid (step_action step) s)
         = (Returns r, s3)"
  have st: "snd (execute_step e agents step s) = set_result aid r s3
          \<or> (\<exists>t. snd (execute_step e agents step s)
                = add_message (response_message aid t r) (set_result aid r s3))"
  proof (cases "output_str e r")
    case (Text u)
    with a have "snd (execute_step e agents step s)
        = add_message (response_message aid u r) (set_result aid r s3)"
      by (simp add: execute_step_returns)
    then show ?thesis by blast
  next
    case (StrRaises u)
    with a have "snd (execute_step e agents step s) = set_result aid r s3"
      by (simp add: execute_step_unprintable)
    then show ?thesis by blast
  qed
  from st show "results (snd (execute_step e agents step s)) = AList.update aid r (results s3)"
    by (auto simp: add_message_def set_result_def)
  from st show "get_result (snd (execute_step e agents step s)) aid = Some r"
    by (auto simp: add_message_def set_result_def get_result_def update_conv')
  {
    assume "output_str e r = Text t"
    with a have "execute_step e agents step s =
           (Inr r, add_message (response_message aid t r) (set_result aid r s3))"
      by (simp add: execute_step_returns)
    then show "fst (execute_step e agents step s) = Inr r"
      and "history (snd (execute_step e agents step s))
                 = history s3 @ [HistResult aid r, HistMessage (response_message aid t r)]"
      by (simp_all add: add_message_def set_result_def)
  }
  {
    assume "output_str e r = StrRaises m"
    with a have "execute_step e agents step s = (Inr (raised_result aid m), set_result aid r s3)"
      by (simp add: execute_step_unprintable)
    then show "fst (execute_step e agents step s) = Inr (raised_result aid m)"
      and "history (snd (execute_step e agents step s)) = history s3 @ [HistResult aid r]"
      by (simp_all add: set_result_def)
  }
next
  assume a: "map_of step ''agent'' = Some (PStr aid) \<and> map_of agents aid = Some ag
      \<and> agent_execute ag (step_action step) (worker_input aid (step_action step) s)
         = (Raises x, s3)"
  have "snd (execute_step e agents step s) = s3"
  proof (cases "is_Exception x")
    case True
    with a show ?thesis by (simp add: execute_step_raises)
  next
    case False
    with a show ?thesis by (simp add: execute_step_escapes)
  qed
  then show "results (snd (execute_step e agents step s)) = results s3"
    and "history (snd (execute_step e agents step s)) = history s3" by simp_all
next
  assume "map_of step ''agent'' = Some (PStr aid) \<and> map_of agents aid = None"
  then show "snd (execute_step e agents step s) = s"
    by (simp add: execute_step_unregistered)
qed

theorem step_result_stored_witness:
  "\<not> truthy (dict_get failed_result ''success'')
   \<and> results (snd (execute_step example_env unlucky_agents
                   (mk_step ''research'' ''research task'') AgentState))
       = [(''research'', failed_result)]
   \<and> history (snd (execute_step example_env unlucky_agents
                   (mk_step ''research'' ''research task'') AgentState))
       = [HistMessage (task_message ''research'' (PStr ''research task'')),
          HistResult ''research'' failed_result,
          HistMessage (response_message ''research'' ''None'' failed_result)]
   \<and> results (snd (execute_step strict_env big_agents
                   (mk_step ''research'' ''research task'') AgentState))
       = [(''research'', big_result)]
   \<and> history (snd (execute_step strict_env big_agents
                   (mk_step ''research'' ''research task'') AgentState))
       = [HistMessage (task_message ''research'' (PStr ''research task'')),
          HistResult ''research'' big_result]
   \<and> results (snd (execute_step example_env unlucky_agents
                   (mk_step ''writing'' ''write response'') AgentState)) = []
   \<and> history (snd (execute_step example_env unlucky_agents
                   (mk_step ''writing'' ''write response'') AgentState))
       = [HistMessage (task_message ''writing'' (PStr ''write response''))]
   \<and> snd (execute_step example_env unlucky_agents
             (mk_step ''qa'' ''review_quality'') AgentState) = AgentState"
proof -
  have a: "map_of unlucky_agents ''research''
             = Some (returning_agent ''Research Agent'' failed_result)"
    and b: "map_of unlucky_agents ''writing''
             = Some (raising_agent ''Writing Agent'' (Raised ''disk full''))"
    and c: "map_of unlucky_agents ''qa'' = None"
    by (simp_all add: unlucky_agents_def)
  have d: "map_of big_agents ''research'' = Some (returning_agent ''Research Agent'' big_result)"
    by (simp add: big_agents_def)
  note t1 = step_result_stored[where step = "mk_step ''research'' ''research task''"
      and aid = "''research''" and agents = unlucky_agents
      and ag = "returning_agent ''Research Agent'' failed_result" and s = AgentState
      and r = failed_result
      and ?s3.0 = "worker_input ''research'' (PStr ''research task'') AgentState"
      and e = example_env and t = "''None''"]
  note t2 = step_result_stored[where step = "mk_step ''writing'' ''write response''"
      and aid = "''writing''" and agents = unlucky_agents
      and ag = "raising_agent ''Writing Agent'' (Raised ''disk full'')" and s = AgentState
      and ?s3.0 = "worker_input ''writing'' (PStr ''write response'') AgentState"
      and e = example_env and x = "Raised ''disk full''"]
  note t3 = step_result_stored[where step = "mk_step ''qa'' ''review_quality''"
      and aid = "''qa''" and agents = unlucky_agents and s = AgentState and e = example_env]
  note t4 = step_result_stored[where step = "mk_step ''research'' ''research task''"
      and aid = "''research''" and agents = big_agents
      and ag = "returning_agent ''Research Agent'' big_result" and s = AgentState
      and r = big_result
      and ?s3.0 = "worker_input ''research'' (PStr ''research task'') AgentState"
      and e = strict_env and m = "digits_message"]
  have f: "\<not> truthy (dict_get failed_result ''success'')"
    by (simp add: failed_result_def dict_get_def)
  from t1 a have r1: "results (snd (execute_step example_env unlucky_agents
                   (mk_step ''research'' ''research task'') AgentState))
       = [(''research'', failed_result)]"
    and r2: "history (snd (execute_step example_env unlucky_agents
                   (mk_step ''research'' ''research task'') AgentState))
       = [HistMessage (task_message ''research'' (PStr ''research task'')),
          HistResult ''research'' failed_result,
          HistMessage (response_message ''research'' ''None'' failed_result)]"
    by (simp_all add: mk_step_agent step_action_mk_step returning_agent_execute
          output_str_failed_result worker_input_def add_message_def AgentState_def)
  from t4 d have r6: "results (snd (execute_step strict_env big_agents
                   (mk_step ''research'' ''research task'') AgentState))
       = [(''research'', big_result)]"
    and r7: "history (snd (execute_step strict_env big_agents
                   (mk_step ''research'' ''research task'') AgentState))
       = [HistMessage (task_message ''research'' (PStr ''research task'')),
          HistResult ''research'' big_result]"
    by (simp_all add: mk_step_agent step_action_mk_step returning_agent_execute
          output_str_big_result worker_input_def add_message_def AgentState_def)
  from t2 b have r3: "results (snd (execute_step example_env unlucky_agents
                   (mk_step ''writing'' ''write response'') AgentState)) = []"
    and r4: "history (snd (execute_step example_env unlucky_agents
                   (mk_step ''writing'' ''write response'') AgentState))
       = [HistMessage (task_message ''writing'' (PStr ''write response''))]"
    by (simp_all add: mk_step_agent step_action_mk_step raising_agent_execute
          worker_input_def add_message_def AgentState_def)
  from t3 c have r5: "snd (execute_step example_env unlucky_agents
             (mk_step ''qa'' ''review_quality'') AgentState) = AgentState"
    by (simp add: mk_step_agent)
  from f r1 r2 r3 r4 r5 r6 r7 show ?thesis by blast
qed

section \<open>Run loop: how many steps are executed\<close>










section \<open>Step executor: a worker that raises\<close>




section \<open>Step executor: the message trace\<close>

text \<open>
  Claim C6, as the code has it. For a step whose worker is registered, the instruction
  message (orchestrator to worker) is in the state on which the worker is invoked. When
  the worker returns a result, successful or not, and \<open>str\<close> of its output can be
  taken, the result is stored and then the answer message (worker to orchestrator, with
  that text and the metadata) is recorded: the history gains the result entry and then
  the message. For a worker that leaves messages and history alone the step adds, in
  this order, the instruction message, the result entry and the answer message. No
  answer message is recorded when the worker raises, nor when \<open>str\<close> of the output
  raises after the result was stored; and a step whose worker is not registered
  records no message at all.
\<close>

theorem step_message_trace:
  "(map_of step ''agent'' = Some (PStr aid) \<and> map_of agents aid = Some ag
      \<and> agent_execute ag (step_action step) (worker_input aid (step_action step) s)
         = (Returns r, s3)
      \<and> output_str e r = Text t
     \<longrightarrow> messages (worker_input aid (step_action step) s)
           = messages s @ [task_message aid (step_action step)]
       \<and> execute_step e agents step s
           = (Inr r, add_message (response_message aid t r) (set_result aid r s3))
       \<and> messages (snd (execute_step e agents step s))
           = messages s3 @ [response_message aid t r]
       \<and> history (snd (execute_step e agents step s))
           = history s3 @ [HistResult aid r, HistMessage (response_message aid t r)]
       \<and> (messages s3 = messages (worker_input aid (step_action step) s)
            \<and> history s3 = history (worker_input aid (step_action step) s)
          \<longrightarrow> messages (snd (execute_step e agents step s))
                = messages s @ [task_message aid (step_action step), response_message aid t r]
            \<and> history (snd (execute_step e agents step s))
                = history s @ [HistMessage (task_message aid (step_action step)),
                               HistResult aid r,
                               HistMessage (response_message aid t r)]))
   \<and> (map_of step ''agent'' = Some (PStr aid) \<and> map_of agents aid = Some ag
      \<and> agent_execute ag (step_action step) (worker_input aid (step_action step) s)
         = (Returns r, s3)
      \<and> output_str e r = StrRaises m
     \<longrightarrow> fst (execute_step e agents step s) = Inr (raised_result aid m)
       \<and> messages (snd (execute_step e agents step s)) = messages s3
       \<and> history (snd (execute_step e agents step s)) = history s3 @ [HistResult aid r])
   \<and> (map_of step ''agent'' = Some (PStr aid) \<and> map_of agents aid = Some ag
      \<and> agent_execute ag (step_action step) (worker_input aid (step_action step) s)
         = (Raises x, s3)
     \<longrightarrow> messages (snd (execute_step e agents step s)) = messages s3
       \<and> history (snd (execute_step e agents step s)) = history s3)
   \<and> (map_of step ''agent'' = Some (PStr aid) \<and> map_of agents aid = None
     \<longrightarrow> messages (snd (execute_step e agents step s)) = messages s)
   \<and> sender (task_message aid action) = ''orchestrator''
   \<and> recipient (task_message aid action) = aid
   \<and> content (task_message aid action) = action
   \<and> sender (response_message aid t r) = aid
   \<and> recipient (response_message aid t r) = ''orchestrator''
   \<and> content (response_message aid t r) = PStr t
   \<and> (truthy (dict_get_default r ''metadata'' (PDict []))
        \<longrightarrow> metadata (response_message aid t r) = dict_get_default r ''metadata'' (PDict []))"
proof (intro conjI impI)
  assume a: "map_of step ''agent'' = Some (PStr aid) \<and> map_of agents aid = Some ag
      \<and> agent_execute ag (step_action step) (worker_input aid (step_action step) s)
         = (Raises x, s3)"
  have "snd (execute_step e agents step s) = s3"
  proof (cases "is_Exception x")
    case True
    with a show ?thesis by (simp add: execute_step_raises)
  next
    case False
    with a show ?thesis by (simp add: execute_step_escapes)
  qed
  then show "messages (snd (execute_step e agents step s)) = messages s3"
    and "history (snd (execute_step e agents step s)) = history s3" by simp_all
qed (simp_all add: execute_step_returns execute_step_unprintable execute_step_unregistered
       worker_input_def add_message_def set_result_def
       task_message_def response_message_def AgentMessage_def)

text \<open>
  When the worker raises, the step is executed and fails, and the message log holds the
  instruction message alone: no answer message is recorded.
\<close>

theorem step_message_trace_counterexample:
  "fst (execute_step example_env unlucky_agents (mk_step ''writing'' ''write response'') AgentState)
     = Inr (raised_result ''writing'' ''disk full'')
   \<and> messages (snd (execute_step example_env unlucky_agents
                    (mk_step ''writing'' ''write response'') AgentState))
       = [task_message ''writing'' (PStr ''write response'')]"
proof -
  have b: "map_of unlucky_agents ''writing''
      = Some (raising_agent ''Writing Agent'' (Raised ''disk full''))"
    by (simp add: unlucky_agents_def)
  have "execute_step example_env unlucky_agents (mk_step ''writing'' ''write response'') AgentState
     = (Inr (raised_result ''writing'' ''disk full''),
        worker_input ''writing'' (PStr ''write response'') AgentState)"
    using execute_step_raises[OF mk_step_agent[of "''writing''" "''write response''"] b,
        where x = "Raised ''disk full''" and s = AgentState and e = example_env
        and ?s3.0 = "worker_input ''writing'' (PStr ''write response'') AgentState"]
    by (simp add: step_action_mk_step raising_agent_execute str_exn_def)
  then show ?thesis by (simp add: worker_input_def add_message_def AgentState_def)
qed

theorem step_message_trace_witness:
  "messages (snd (execute_step example_env unlucky_agents
                    (mk_step ''research'' ''research task'') AgentState))
     = [task_message ''research'' (PStr ''research task''),
        response_message ''research'' ''None'' failed_result]
   \<and> history (snd (execute_step example_env unlucky_agents
                    (mk_step ''research'' ''research task'') AgentState))
     = [HistMessage (task_message ''research'' (PStr ''research task'')),
        HistResult ''research'' failed_result,
        HistMessage (response_message ''research'' ''None'' failed_result)]
   \<and> content (response_message ''research'' ''None'' failed_result) = PStr ''None''
   \<and> fst (execute_step strict_env big_agents (mk_step ''research'' ''research task'') AgentState)
       = Inr (raised_result ''research'' digits_message)
   \<and> messages (snd (execute_step strict_env big_agents
                    (mk_step ''research'' ''research task'') AgentState))
       = [task_message ''research'' (PStr ''research task'')]
   \<and> messages (snd (execute_step example_env unlucky_agents
                    (mk_step ''writing'' ''write response'') AgentState))
       = [task_message ''writing'' (PStr ''write response'')]
   \<and> messages (snd (execute_step example_env unlucky_agents
                    (mk_step ''qa'' ''review_quality'') AgentState)) = []"
proof -
  have a: "map_of unlucky_agents ''research''
             = Some (returning_agent ''Research Agent'' failed_result)"
    and b: "map_of unlucky_agents ''writing''
             = Some (raising_agent ''Writing Agent'' (Raised ''disk full''))"
    and c: "map_of unlucky_agents ''qa'' = None"
    by (simp_all add: unlucky_agents_def)
  have d: "map_of big_agents ''research'' = Some (returning_agent ''Research Agent'' big_result)"
    by (simp add: big_agents_def)
  note t = step_message_trace[where step = "mk_step ''research'' ''research task''"
      and aid = "''research''" and agents = unlucky_agents
      and ag = "returning_agent ''Research Agent'' failed_result" and s = AgentState
      and r = failed_result
      and ?s3.0 = "worker_input ''research'' (PStr ''research task'') AgentState"
      and e = example_env and action = "PStr ''research task''" and t = "''None''"]
  note u = step_message_trace[where step = "mk_step ''research'' ''research task''"
      and aid = "''research''" and agents = big_agents
      and ag = "returning_agent ''Research Agent'' big_result" and s = AgentState
      and r = big_result
      and ?s3.0 = "worker_input ''research'' (PStr ''research task'') AgentState"
      and e = strict_env and m = "digits_message"]
  note v = step_message_trace[where step = "mk_step ''writing'' ''write response''"
      and aid = "''writing''" and agents = unlucky_agents
      and ag = "raising_agent ''Writing Agent'' (Raised ''disk full'')" and s = AgentState
      and x = "Raised ''disk full''"
      and ?s3.0 = "worker_input ''writing'' (PStr ''write response'') AgentState"
      and e = example_env]
  note w = step_message_trace[where step = "mk_step ''qa'' ''review_quality''"
      and aid = "''qa''" and agents = unlucky_agents and s = AgentState and e = example_env]
  from t a have 1: "messages (snd (execute_step example_env unlucky_agents
                    (mk_step ''research'' ''research task'') AgentState))
     = [task_message ''research'' (PStr ''research task''),
        response_message ''research'' ''None'' failed_result]"
    and 2: "history (snd (execute_step example_env unlucky_agents
                    (mk_step ''research'' ''research task'') AgentState))
     = [HistMessage (task_message ''research'' (PStr ''research task'')),
        HistResult ''research'' failed_result,
        HistMessage (response_message ''research'' ''None'' failed_result)]"
    by (simp_all add: mk_step_agent step_action_mk_step returning_agent_execute AgentState_def
          output_str_failed_result worker_input_def add_message_def set_result_def)
  from t have 3: "content (response_message ''research'' ''None'' failed_result) = PStr ''None''"
    by simp
  from u d have 4: "fst (execute_step strict_env big_agents
                      (mk_step ''research'' ''research task'') AgentState)
       = Inr (raised_result ''research'' digits_message)"
    and 5: "messages (snd (execute_step strict_env big_agents
                    (mk_step ''research'' ''research task'') AgentState))
       = [task_message ''research'' (PStr ''research task'')]"
    by (simp_all add: mk_step_agent step_action_mk_step returning_agent_execute AgentState_def
          output_str_big_result worker_input_def add_message_def)
  from v b have 6: "messages (snd (execute_step example_env unlucky_agents
                    (mk_step ''writing'' ''write response'') AgentState))
       = [task_message ''writing'' (PStr ''write response'')]"
    by (simp add: mk_step_agent step_action_mk_step raising_agent_execute AgentState_def
          worker_input_def add_message_def)
  from w c have 7: "messages (snd (execute_step example_env unlucky_agents
                    (mk_step ''qa'' ''review_quality'') AgentState)) = []"
    by (simp add: mk_step_agent AgentState_def)
  from 1 2 3 4 5 6 7 show ?thesis by blast
qed

section \<open>Planner: the workers a plan names\<close>

text \<open>
  Every plan the planner returns is one of: the steps of a template, the default plan,
  the fallback plan, or the steps of the generated plan that passed the filter. The
  filter of the code keeps exactly the steps the specification describes.
\<close>

lemma match_keywords_in_templates:
  "match_keywords tbl low = Some t \<Longrightarrow> \<exists>tid. map_of WORKFLOW_TEMPLATES tid = Some t"
  by (induction tbl) (auto split: if_splits)

lemma template_steps_agents:
  assumes "map_of WORKFLOW_TEMPLATES tid = Some t"
  shows "t_steps t \<noteq> []
       \<and> (\<forall>st \<in> set (t_steps t). \<exists>a. map_of st ''agent'' = Some (PStr a)
              \<and> a \<in> {''research'', ''code'', ''data'', ''writing'', ''qa''})"
  using assms by (auto simp: WORKFLOW_TEMPLATES_def mk_step_def split: if_splits)

lemma in_valid_agents_True:
  "in_valid_agents valid v = Inr True \<Longrightarrow> \<exists>a. v = PStr a \<and> a \<in> set valid"
  by (cases v) auto

lemma in_valid_agents_registered:
  "in_valid_agents valid (dict_get d ''agent'') = Inr keep \<Longrightarrow>
   keep = registered_step valid (PDict d)"
  by (cases "dict_get d ''agent''") (auto simp: registered_step_def)

lemma dict_get_PStr: "dict_get d k = PStr a \<Longrightarrow> map_of d k = Some (PStr a)"
  by (simp add: dict_get_def split: option.splits)

lemma validate_steps_valid:
  "validate_steps valid xs = Inr ys \<Longrightarrow>
   \<forall>d \<in> set ys. \<exists>a. map_of d ''agent'' = Some (PStr a) \<and> a \<in> set valid"
proof (induction valid xs arbitrary: ys rule: validate_steps.induct)
  case (1 valid)
  then show ?case by simp
next
  case (2 valid d xs)
  from "2.prems" obtain keep zs where
    k: "in_valid_agents valid (dict_get d ''agent'') = Inr keep"
    and z: "validate_steps valid xs = Inr zs"
    and y: "ys = (if keep then d # zs else zs)"
    by (auto split: sum.splits)
  from "2.IH"[OF k z] have ih: "\<forall>d \<in> set zs. \<exists>a. map_of d ''agent'' = Some (PStr a) \<and> a \<in> set valid" .
  show ?case
  proof (cases keep)
    case True
    with k have "in_valid_agents valid (dict_get d ''agent'') = Inr True" by simp
    then obtain a where "dict_get d ''agent'' = PStr a" and "a \<in> set valid"
      using in_valid_agents_True by blast
    then have "map_of d ''agent'' = Some (PStr a) \<and> a \<in> set valid"
      by (simp add: dict_get_PStr)
    with ih y True show ?thesis by auto
  next
    case False
    with ih y show ?thesis by simp
  qed
qed simp_all

lemma validate_steps_filter:
  "validate_steps valid xs = Inr ys \<Longrightarrow> map PDict ys = filter (registered_step valid) xs"
proof (induction valid xs arbitrary: ys rule: validate_steps.induct)
  case (1 valid)
  then show ?case by simp
next
  case (2 valid d xs)
  from "2.prems" obtain keep zs where
    k: "in_valid_agents valid (dict_get d ''agent'') = Inr keep"
    and z: "validate_steps valid xs = Inr zs"
    and y: "ys = (if keep then d # zs else zs)"
    by (auto split: sum.splits)
  from "2.IH"[OF k z] have "map PDict zs = filter (registered_step valid) xs" .
  with y in_valid_agents_registered[OF k] show ?case by simp
qed simp_all

lemma custom_plan_cases:
  assumes "create_custom_plan e agents task = (calls, Inr plan)"
  shows "plan = default_plan
       \<or> (\<exists>response parsed items kept.
            call_llm e (PlanningPrompt task (agent_descriptions agents)) = Generated response
            \<and> json_loads e response = Parsed parsed
            \<and> py_iter parsed = Inr items
            \<and> validate_steps (map fst agents) items = Inr kept
            \<and> plan = (if kept = [] then fallback_plan else kept))"
  using assms
  by (auto simp: create_custom_plan_def Let_def
        split: llm_outcome.splits json_outcome.splits sum.splits if_splits)

lemma first_shape: "P \<Longrightarrow> Q \<Longrightarrow> P \<and> (Q \<or> R)"
  by simp

lemma second_shape: "P \<Longrightarrow> R \<Longrightarrow> P \<and> (Q \<or> R)"
  by simp

lemma default_plan_agents:
  "default_plan \<noteq> []
   \<and> (\<forall>st \<in> set default_plan. \<exists>a. map_of st ''agent'' = Some (PStr a)
          \<and> a \<in> {''research'', ''code'', ''data'', ''writing'', ''qa''})"
  by (simp add: default_plan_def mk_step_def)

lemma fallback_plan_agents:
  "fallback_plan \<noteq> []
   \<and> (\<forall>st \<in> set fallback_plan. \<exists>a. map_of st ''agent'' = Some (PStr a)
          \<and> a \<in> {''research'', ''code'', ''data'', ''writing'', ''qa''})"
  by (simp add: fallback_plan_def mk_step_def)

lemma create_plan_cases:
  assumes "create_plan e agents task = (calls, Inr plan)"
  shows "plan \<noteq> []
       \<and> ((\<forall>st \<in> set plan. \<exists>a. map_of st ''agent'' = Some (PStr a)
              \<and> a \<in> {''research'', ''code'', ''data'', ''writing'', ''qa''})
          \<or> (\<forall>st \<in> set plan. \<exists>a. map_of st ''agent'' = Some (PStr a)
              \<and> a \<in> set (map fst agents)))"
proof (cases "match_template task")
  case (Some t)
  with assms have p: "plan = t_steps t" by (simp add: create_plan_def)
  from Some obtain tid where "map_of WORKFLOW_TEMPLATES tid = Some t"
    unfolding match_template_def using match_keywords_in_templates by blast
  note ts = template_steps_agents[OF this]
  show ?thesis unfolding p
    by (rule first_shape[OF ts[THEN conjunct1] ts[THEN conjunct2]])
next
  case None
  with assms have c: "create_custom_plan e agents task = (calls, Inr plan)"
    by (simp add: create_plan_def)
  from custom_plan_cases[OF c] show ?thesis
  proof
    assume p: "plan = default_plan"
    show ?thesis unfolding p
      by (rule first_shape[OF default_plan_agents[THEN conjunct1]
            default_plan_agents[THEN conjunct2]])
  next
    assume "\<exists>response parsed items kept.
            call_llm e (PlanningPrompt task (agent_descriptions agents)) = Generated response
            \<and> json_loads e response = Parsed parsed
            \<and> py_iter parsed = Inr items
            \<and> validate_steps (map fst agents) items = Inr kept
            \<and> plan = (if kept = [] then fallback_plan else kept)"
    then obtain items kept where v: "validate_steps (map fst agents) items = Inr kept"
      and p: "plan = (if kept = [] then fallback_plan else kept)" by blast
    show ?thesis
    proof (cases "kept = []")
      case True
      with p have p': "plan = fallback_plan" by simp
      show ?thesis unfolding p'
        by (rule first_shape[OF fallback_plan_agents[THEN conjunct1]
              fallback_plan_agents[THEN conjunct2]])
    next
      case False
      with p have p': "plan = kept" by simp
      from validate_steps_valid[OF v] have "\<forall>st \<in> set plan. \<exists>a. map_of st ''agent'' = Some (PStr a)
              \<and> a \<in> set (map fst agents)" unfolding p' .
      moreover from False p' have "plan \<noteq> []" by simp
      ultimately show ?thesis by (rule second_shape[rotated])
    qed
  qed
qed


text \<open>
  Claim C5, as the code has it. When the registry holds the five workers that the
  templates and the two fixed plans name (research, code, data, writing, qa), every
  plan that \<open>_create_plan\<close> returns is non-empty and each of its steps names a
  registered worker. Template steps and the fixed plans are returned as they are,
  without a look at the registry; only generated steps are filtered.
\<close>

theorem plan_steps_registered:
  assumes "{''research'', ''code'', ''data'', ''writing'', ''qa''} \<subseteq> set (map fst agents)"
    and "create_plan e agents task = (calls, Inr plan)"
  shows "plan \<noteq> []
       \<and> (\<forall>st \<in> set plan. \<exists>a ag. map_of st ''agent'' = Some (PStr a)
              \<and> map_of agents a = Some ag)"
proof -
  note pc = create_plan_cases[OF assms(2)]
  from pc have ne: "plan \<noteq> []" by (rule conjunct1)
  have reg: "\<forall>st \<in> set plan. \<exists>a. map_of st ''agent'' = Some (PStr a) \<and> a \<in> set (map fst agents)"
  proof
    fix st assume st: "st \<in> set plan"
    from pc[THEN conjunct2]
    show "\<exists>a. map_of st ''agent'' = Some (PStr a) \<and> a \<in> set (map fst agents)"
    proof
      assume "\<forall>st \<in> set plan. \<exists>a. map_of st ''agent'' = Some (PStr a)
              \<and> a \<in> {''research'', ''code'', ''data'', ''writing'', ''qa''}"
      from bspec[OF this st] obtain a where a: "map_of st ''agent'' = Some (PStr a)"
        and five: "a \<in> {''research'', ''code'', ''data'', ''writing'', ''qa''}"
        by (elim exE conjE)
      from five assms(1) have "a \<in> set (map fst agents)" by (rule subsetD[rotated])
      with a show ?thesis by (intro exI conjI)
    next
      assume "\<forall>st \<in> set plan. \<exists>a. map_of st ''agent'' = Some (PStr a)
              \<and> a \<in> set (map fst agents)"
      from bspec[OF this st] show ?thesis .
    qed
  qed
  have "\<forall>st \<in> set plan. \<exists>a ag. map_of st ''agent'' = Some (PStr a) \<and> map_of agents a = Some ag"
  proof
    fix st assume "st \<in> set plan"
    from bspec[OF reg this] obtain a where a: "map_of st ''agent'' = Some (PStr a)"
      and "a \<in> set (map fst agents)"
      by (elim exE conjE)
    then have "map_of agents a \<noteq> None" by (simp add: map_of_eq_None_iff)
    then obtain ag where "map_of agents a = Some ag" by (cases "map_of agents a") simp_all
    with a show "\<exists>a ag. map_of st ''agent'' = Some (PStr a) \<and> map_of agents a = Some ag"
      by (intro exI conjI)
  qed
  with ne show ?thesis by (rule conjI)
qed

text \<open>
  With a registry that holds the research worker alone, the task of the scenario gets
  the \<open>code_project\<close> plan, whose first step names the worker \<open>code\<close>, which is not
  registered.
\<close>

theorem plan_steps_registered_counterexample:
  "create_plan example_env research_only ''Build a REST API for a todo app''
     = ([], Inr [mk_step ''code'' ''generate_code'', mk_step ''code'' ''write_tests'',
                 mk_step ''qa'' ''code_review'', mk_step ''writing'' ''create_documentation''])
   \<and> map_of (mk_step ''code'' ''generate_code'') ''agent'' = Some (PStr ''code'')
   \<and> map_of research_only ''code'' = None"
  by (simp add: create_plan_def match_template_rest_api WORKFLOW_TEMPLATES_def mk_step_agent
        research_only_def)

theorem plan_steps_registered_witness:
  "create_plan example_env standard_agents ''Say hello''
     = ([PlanningPrompt ''Say hello'' (agent_descriptions standard_agents)], Inr default_plan)
   \<and> default_plan \<noteq> []
   \<and> \<not> (\<exists>st \<in> set default_plan.
           \<not> (\<exists>a ag. map_of st ''agent'' = Some (PStr a) \<and> map_of standard_agents a = Some ag))"
proof -
  have h1: "{''research'', ''code'', ''data'', ''writing'', ''qa''} \<subseteq> set (map fst standard_agents)"
    by (simp add: standard_agents_def)
  have h2: "create_plan example_env standard_agents ''Say hello''
     = ([PlanningPrompt ''Say hello'' (agent_descriptions standard_agents)], Inr default_plan)"
    by (simp add: create_plan_def create_custom_plan_def match_template_hello example_env_def)
  from plan_steps_registered[OF h1 h2] h2 show ?thesis by blast
qed

section \<open>Planner: the length of a generated plan\<close>

text \<open>
  Claim C8, as the code has it. On the fallback path (no template matches, the response
  parses), a plan that \<open>_create_plan\<close> returns consists of the steps of the response
  that name a registered worker, in their order, however many they are, or is the
  two-step fallback plan when there is none. It has at least one step and at most as
  many as the response (two for the fallback plan). The bound of 2 to 5 steps is asked
  of the generation service in the prompt and not checked on its answer.
\<close>

theorem fallback_plan_length:
  assumes "match_template task = None"
    and "call_llm e (PlanningPrompt task (agent_descriptions agents)) = Generated response"
    and "json_loads e response = Parsed parsed"
    and "create_plan e agents task = (calls, Inr plan)"
  shows "\<exists>items kept. py_iter parsed = Inr items
           \<and> validate_steps (map fst agents) items = Inr kept
           \<and> map PDict kept = filter (registered_step (map fst agents)) items
           \<and> plan = (if kept = [] then fallback_plan else kept)
           \<and> 1 \<le> length plan \<and> length plan \<le> max 2 (length items)"
proof -
  from assms(1,4) have c: "create_custom_plan e agents task = (calls, Inr plan)"
    by (simp add: create_plan_def)
  with assms(2,3) obtain items kept where i: "py_iter parsed = Inr items"
    and v: "validate_steps (map fst agents) items = Inr kept"
    and p: "plan = (if kept = [] then fallback_plan else kept)"
    by (auto simp: create_custom_plan_def Let_def split: sum.splits)
  from validate_steps_filter[OF v]
  have f: "map PDict kept = filter (registered_step (map fst agents)) items" .
  then have "length kept = length (filter (registered_step (map fst agents)) items)"
    by (metis length_map)
  then have le: "length kept \<le> length items" by simp
  from p have "1 \<le> length plan" by (cases kept) (auto simp: fallback_plan_def)
  moreover from p le have "length plan \<le> max 2 (length items)"
    by (auto simp: fallback_plan_def)
  ultimately show ?thesis using i v f p by blast
qed

text \<open>
  No template matches "Say hello", the response parses as a list with one step for a
  registered worker, and the plan returned has that one step: fewer than two.
\<close>

theorem fallback_plan_length_counterexample:
  "match_template ''Say hello'' = None
   \<and> call_llm one_step_env (PlanningPrompt ''Say hello'' (agent_descriptions standard_agents))
       = Generated ''[...]''
   \<and> json_loads one_step_env ''[...]'' = Parsed (PList [PDict (mk_step ''research'' ''look it up'')])
   \<and> create_plan one_step_env standard_agents ''Say hello''
       = ([PlanningPrompt ''Say hello'' (agent_descriptions standard_agents)],
          Inr [mk_step ''research'' ''look it up''])
   \<and> \<not> 2 \<le> length [mk_step ''research'' ''look it up'']"
  by (simp add: create_plan_def create_custom_plan_def match_template_hello one_step_env_def
        dict_get_def mk_step_def standard_agents_def)

theorem fallback_plan_length_witness:
  "create_plan one_step_env standard_agents ''Say hello''
       = ([PlanningPrompt ''Say hello'' (agent_descriptions standard_agents)],
          Inr [mk_step ''research'' ''look it up''])
   \<and> (\<exists>items kept. py_iter (PList [PDict (mk_step ''research'' ''look it up'')]) = Inr items
         \<and> validate_steps (map fst standard_agents) items = Inr kept
         \<and> [mk_step ''research'' ''look it up''] = (if kept = [] then fallback_plan else kept)
         \<and> length [mk_step ''research'' ''look it up''] \<le> max 2 (length items))"
proof -
  have h2: "call_llm one_step_env (PlanningPrompt ''Say hello'' (agent_descriptions standard_agents))
       = Generated ''[...]''" by (simp add: one_step_env_def)
  have h3: "json_loads one_step_env ''[...]'' = Parsed (PList [PDict (mk_step ''research'' ''look it up'')])"
    by (simp add: one_step_env_def)
  have h4: "create_plan one_step_env standard_agents ''Say hello''
       = ([PlanningPrompt ''Say hello'' (agent_descriptions standard_agents)],
          Inr [mk_step ''research'' ''look it up''])"
    by (simp add: create_plan_def create_custom_plan_def match_template_hello one_step_env_def
        dict_get_def mk_step_def standard_agents_def)
  from fallback_plan_length[OF match_template_hello h2 h3 h4] h4 show ?thesis by blast
qed

section \<open>Exceptions that leave the orchestrator\<close>













section \<open>The run report\<close>




















section \<open>Run loop: the iteration ceiling\<close>






end
